theory Spec2Isabelle
  imports Main "HOL-Library.Sublist"
begin

section \<open>TeachMate service worker: configuration\<close>

text \<open>
  The constants at the top of \<^verbatim>\<open>service-worker.js\<close>: the names of the two cache
  generations of this version and the list of shell paths.
\<close>

definition APP_SHELL_CACHE :: string where
  "APP_SHELL_CACHE = ''teachmate-shell-v3''"

definition RUNTIME_CACHE :: string where
  "RUNTIME_CACHE = ''teachmate-runtime-v3''"

definition APP_SHELL :: "string list" where
  "APP_SHELL = [''/'', ''/manifest.json'', ''/offline.html'']"

section \<open>Data model\<close>

text \<open>
  A request as the fetch handler reads it: \<^verbatim>\<open>req.method\<close>, the parts of
  \<^verbatim>\<open>new URL(req.url)\<close> that the handler and the cache key use (origin, pathname, search), and
  \<^verbatim>\<open>req.destination\<close>. The fragment of a URL takes no part in cache matching and is left out.
\<close>

record request =
  rmethod :: string
  origin :: string
  pathname :: string
  search :: string
  destination :: string

definition request_url :: "request \<Rightarrow> string" where
  "request_url req = origin req @ pathname req @ search req"

text \<open>
  What the network delivers and what a cache holds: a captured response. The headers are
  listed as the \<^verbatim>\<open>Headers\<close> object lists them: names in lower case, one value for a name,
  several field values joined by commas. A JavaScript \<^verbatim>\<open>Response\<close> object is such a capture
  together with the flag that says whether its body stream has been read or locked; a body
  can be read once.
\<close>

record entry =
  status :: nat
  headers :: "(string \<times> string) list"
  body :: string

record response =
  content :: entry
  bodyUsed :: bool

definition new_response :: "entry \<Rightarrow> response" where
  "new_response e = \<lparr>content = e, bodyUsed = False\<rparr>"

text \<open>
  Response objects are shared by reference: the object that is handed to \<^verbatim>\<open>cache.put\<close> and
  the object that is returned to the caller may be one and the same. The objects of one run
  of a strategy live in a heap, a list addressed by position; every address comes from an
  allocation.
\<close>

type_synonym ref = nat

type_synonym heap = "response list"

definition alloc :: "response \<Rightarrow> heap \<Rightarrow> ref \<times> heap" where
  "alloc r h = (length h, h @ [r])"

text \<open>
  \<^verbatim>\<open>Response.clone()\<close> throws a TypeError on a response whose body has been read;
  otherwise it makes a second object of the same content with a body of its own, and the
  response it was called on stays as it is.
\<close>

definition clone :: "ref \<Rightarrow> heap \<Rightarrow> (ref \<times> heap) option" where
  "clone a h = (if bodyUsed (h ! a) then None else Some (alloc (h ! a) h))"

text \<open>
  The calls the worker makes on its collaborators are recorded in the order in which it
  makes them.
\<close>

datatype effect =
    SkipWaiting
  | ClientsClaim
  | NetFetch request
  | CachePut string string
  | CacheDelete string

text \<open>
  \<^verbatim>\<open>caches\<close> is a list of named caches in the order of their creation, each cache a list of
  entries by request URL.
\<close>

type_synonym cache = "(string \<times> entry) list"

type_synonym cache_storage = "(string \<times> cache) list"

record sw_state =
  storage :: cache_storage
  log :: "effect list"

text \<open>
  The surroundings of the worker: the origin it is served from, against which
  \<^verbatim>\<open>'/offline.html'\<close> and the shell paths are resolved, and the network, which answers a
  request with a response of any status or rejects (\<open>None\<close>).
\<close>

record env =
  sw_origin :: string
  net :: "request \<Rightarrow> entry option"

datatype result = Served response | Failed

datatype fetch_outcome = NotIntercepted | Responded result

datatype policy = PASS_THROUGH | SHELL_RESOURCE | STATIC_ASSET | DYNAMIC_RESOURCE

section \<open>The collaborators: cache storage and network\<close>

text \<open>\<^verbatim>\<open>String.prototype.includes\<close>: the argument occurs as a contiguous substring.\<close>

definition str_includes :: "string \<Rightarrow> string \<Rightarrow> bool" where
  "str_includes s sub = sublist sub s"

text \<open>\<^verbatim>\<open>caches.keys()\<close>\<close>

definition caches_keys :: "cache_storage \<Rightarrow> string list" where
  "caches_keys cs = map fst cs"

text \<open>\<^verbatim>\<open>caches.open(name)\<close> creates the cache when there is none of that name.\<close>

definition caches_open :: "string \<Rightarrow> sw_state \<Rightarrow> sw_state" where
  "caches_open name st =
     (if name \<in> set (caches_keys (storage st)) then st
      else st\<lparr>storage := storage st @ [(name, [])]\<rparr>)"

text \<open>\<^verbatim>\<open>caches.delete(name)\<close>\<close>

definition caches_delete :: "string \<Rightarrow> sw_state \<Rightarrow> sw_state" where
  "caches_delete name st =
     st\<lparr>storage := filter (\<lambda>nc. fst nc \<noteq> name) (storage st),
        log := log st @ [CacheDelete name]\<rparr>"

text \<open>
  \<^verbatim>\<open>caches.match(request)\<close> on the storage as a whole: the caches are searched in the order
  of their creation and the first entry found is the answer.
\<close>

fun caches_match :: "cache_storage \<Rightarrow> string \<Rightarrow> entry option" where
  "caches_match [] url = None"
| "caches_match (nc # cs) url =
     (case map_of (snd nc) url of
        Some e \<Rightarrow> Some e
      | None \<Rightarrow> caches_match cs url)"

text \<open>The entry of one named generation for a URL.\<close>

definition generation_entry :: "string \<Rightarrow> cache_storage \<Rightarrow> string \<Rightarrow> entry option" where
  "generation_entry name cs url =
     (case map_of cs name of None \<Rightarrow> None | Some c \<Rightarrow> map_of c url)"

text \<open>Writing an entry into the cache of a name: an entry for the same URL is replaced.\<close>

definition put_entry :: "string \<Rightarrow> entry \<Rightarrow> cache \<Rightarrow> cache" where
  "put_entry url e c = filter (\<lambda>ke. fst ke \<noteq> url) c @ [(url, e)]"

definition store_entry :: "string \<Rightarrow> string \<Rightarrow> entry \<Rightarrow> cache_storage \<Rightarrow> cache_storage" where
  "store_entry name url e cs =
     map (\<lambda>nc. if fst nc = name then (fst nc, put_entry url e (snd nc)) else nc) cs"

text \<open>
  The field values of the \<^verbatim>\<open>Vary\<close> header: the header value split at commas, each part
  without the spaces and tabs around it. A response that varies on \<^verbatim>\<open>*\<close> cannot be stored.
\<close>

fun split_commas :: "string \<Rightarrow> string list" where
  "split_commas [] = [] # []"
| "split_commas (c # cs) =
     (if c = CHR '','' then [] # split_commas cs
      else (case split_commas cs of [] \<Rightarrow> [c] # [] | w # ws \<Rightarrow> (c # w) # ws))"

definition is_space :: "char \<Rightarrow> bool" where
  "is_space c = (c = CHR '' '' \<or> c = CHR 0x09)"

definition trim :: "string \<Rightarrow> string" where
  "trim s = rev (dropWhile is_space (rev (dropWhile is_space s)))"

definition vary_star :: "entry \<Rightarrow> bool" where
  "vary_star e =
     (case map_of (headers e) ''vary'' of
        None \<Rightarrow> False
      | Some v \<Rightarrow> ''*'' \<in> set (map trim (split_commas v)))"

definition http_scheme :: "string \<Rightarrow> bool" where
  "http_scheme url = (prefix ''http://'' url \<or> prefix ''https://'' url)"

text \<open>
  What \<^verbatim>\<open>cache.put\<close> accepts for a GET request: a URL of scheme http or https, a status
  other than 206 and no \<^verbatim>\<open>Vary: *\<close>.
\<close>

definition put_accepts :: "string \<Rightarrow> entry \<Rightarrow> bool" where
  "put_accepts url e = (http_scheme url \<and> status e \<noteq> 206 \<and> \<not> vary_star e)"

text \<open>
  \<^verbatim>\<open>cache.put(request, response)\<close> on the cache of that name, the response given by its
  address. The call is recorded where it is issued. When the store accepts the request and
  the response and the body of the response is unread, the body is taken (the object at
  that address is left used) and the entry is written. Otherwise the promise of \<^verbatim>\<open>put\<close>
  rejects, the object and the storage stay as they were, and the worker, which never awaits
  that promise, does not notice. The strategies are reached with GET requests only, the
  handler passing every other method through; refusals for lack of space are not modelled.
\<close>

definition cache_put :: "string \<Rightarrow> string \<Rightarrow> ref \<Rightarrow> heap \<Rightarrow> sw_state \<Rightarrow> heap \<times> sw_state" where
  "cache_put name url a h st =
     (let r = h ! a;
          st1 = st\<lparr>log := log st @ [CachePut name url]\<rparr>
      in if put_accepts url (content r) \<and> \<not> bodyUsed r
         then (h[a := r\<lparr>bodyUsed := True\<rparr>],
               st1\<lparr>storage := store_entry name url (content r) (storage st1)\<rparr>)
         else (h, st1))"

text \<open>
  \<^verbatim>\<open>fetch(req)\<close>: resolves with a new, unread response object of whatever status, or
  rejects.
\<close>

definition fetch :: "env \<Rightarrow> request \<Rightarrow> heap \<Rightarrow> sw_state \<Rightarrow> (ref \<times> heap) option \<times> sw_state" where
  "fetch env req h st =
     (map_option (\<lambda>e. alloc (new_response e) h) (net env req),
      st\<lparr>log := log st @ [NetFetch req]\<rparr>)"

text \<open>
  \<^verbatim>\<open>cache.addAll(paths)\<close>: every path is resolved against the worker's origin (an http or
  https origin, a worker being registered from no other) and fetched; when every fetch
  resolves with an ok status (2xx, and not 206) and without \<^verbatim>\<open>Vary: *\<close>, all the responses
  are stored in one batch, otherwise the promise rejects and nothing is stored.
\<close>

definition shell_request :: "env \<Rightarrow> string \<Rightarrow> request" where
  "shell_request env p =
     \<lparr>rmethod = ''GET'', origin = sw_origin env, pathname = p, search = [], destination = []\<rparr>"

definition addable :: "entry \<Rightarrow> bool" where
  "addable e = (200 \<le> status e \<and> status e \<le> 299 \<and> status e \<noteq> 206 \<and> \<not> vary_star e)"

fun put_all :: "string \<Rightarrow> (request \<times> entry) list \<Rightarrow> sw_state \<Rightarrow> sw_state" where
  "put_all name [] st = st"
| "put_all name (qe # qes) st =
     put_all name qes
       (st\<lparr>storage := store_entry name (request_url (fst qe)) (snd qe) (storage st),
           log := log st @ [CachePut name (request_url (fst qe))]\<rparr>)"

definition cache_addAll :: "env \<Rightarrow> string \<Rightarrow> string list \<Rightarrow> sw_state \<Rightarrow> bool \<times> sw_state" where
  "cache_addAll env name paths st =
     (let reqs = map (shell_request env) paths;
          st1 = st\<lparr>log := log st @ map NetFetch reqs\<rparr>
      in case those (map (net env) reqs) of
           None \<Rightarrow> (False, st1)
         | Some es \<Rightarrow>
             if list_all addable es then (True, put_all name (zip reqs es) st1)
             else (False, st1))"

text \<open>A shell path whose fetch resolves with a response that \<^verbatim>\<open>addAll\<close> accepts.\<close>

definition fetched_ok :: "env \<Rightarrow> string \<Rightarrow> bool" where
  "fetched_ok env p =
     (case net env (shell_request env p) of None \<Rightarrow> False | Some e \<Rightarrow> addable e)"

section \<open>Install, activate, message\<close>

text \<open>
  The install handler calls \<^verbatim>\<open>self.skipWaiting()\<close>, then opens the shell cache and adds the
  shell paths; the boolean says whether the promise given to \<^verbatim>\<open>waitUntil\<close> fulfilled.
\<close>

definition install_handler :: "env \<Rightarrow> sw_state \<Rightarrow> bool \<times> sw_state" where
  "install_handler env st =
     (let st1 = st\<lparr>log := log st @ [SkipWaiting]\<rparr>;
          st2 = caches_open APP_SHELL_CACHE st1
      in cache_addAll env APP_SHELL_CACHE APP_SHELL st2)"

text \<open>
  The sweep of the activate handler: every existing cache name that is not among the
  expected ones is deleted.
\<close>

definition reclaimStaleGenerations :: "string list \<Rightarrow> sw_state \<Rightarrow> sw_state" where
  "reclaimStaleGenerations expected st =
     fold (\<lambda>key s. if key \<notin> set expected then caches_delete key s else s)
          (caches_keys (storage st)) st"

definition activate_handler :: "sw_state \<Rightarrow> sw_state" where
  "activate_handler st =
     reclaimStaleGenerations [APP_SHELL_CACHE, RUNTIME_CACHE]
       (st\<lparr>log := log st @ [ClientsClaim]\<rparr>)"

text \<open>The message handler; its argument is \<^verbatim>\<open>event.data?.action\<close>.\<close>

definition message_handler :: "string option \<Rightarrow> sw_state \<Rightarrow> sw_state" where
  "message_handler action st =
     (if action = Some ''SKIP_WAITING'' then st\<lparr>log := log st @ [SkipWaiting]\<rparr> else st)"

section \<open>Fetch strategies\<close>

text \<open>
  A promise is an object, and every object is truthy: \<^verbatim>\<open>p || q\<close> on a promise \<open>p\<close> is \<open>p\<close>.
  An awaited lookup is the entry or \<^verbatim>\<open>undefined\<close>, and \<^verbatim>\<open>undefined\<close> is falsy.
\<close>

datatype 'a promise = Promise 'a

fun truthy_promise :: "'a promise \<Rightarrow> bool" where
  "truthy_promise (Promise v) = True"

fun settled :: "'a promise \<Rightarrow> 'a" where
  "settled (Promise v) = v"

definition truthy :: "entry option \<Rightarrow> bool" where
  "truthy v = (v \<noteq> None)"

text \<open>What \<^verbatim>\<open>respondWith\<close> makes of the value it is given: \<^verbatim>\<open>undefined\<close> is a failure.\<close>

definition respond :: "entry option \<Rightarrow> result" where
  "respond v = (case v of None \<Rightarrow> Failed | Some e \<Rightarrow> Served (new_response e))"

definition offline_url :: "env \<Rightarrow> string" where
  "offline_url env = sw_origin env @ ''/offline.html''"

text \<open>The \<^verbatim>\<open>catch\<close> block of \<^verbatim>\<open>networkFirst\<close>.\<close>

definition networkFirst_catch :: "env \<Rightarrow> request \<Rightarrow> sw_state \<Rightarrow> result \<times> sw_state" where
  "networkFirst_catch env req st =
     (let cached = caches_match (storage st) (request_url req)
      in (respond (if truthy cached then cached
                   else settled (Promise (caches_match (storage st) (offline_url env)))), st))"

definition networkFirst :: "env \<Rightarrow> request \<Rightarrow> sw_state \<Rightarrow> result \<times> sw_state" where
  "networkFirst env req st =
     (case fetch env req [] st of
        (None, st1) \<Rightarrow> networkFirst_catch env req st1
      | (Some (fresh, h1), st1) \<Rightarrow>
          (let st2 = caches_open APP_SHELL_CACHE st1
           in case clone fresh h1 of
                None \<Rightarrow> networkFirst_catch env req st2
              | Some (c, h2) \<Rightarrow>
                  (case cache_put APP_SHELL_CACHE (request_url req) c h2 st2 of
                     (h3, st3) \<Rightarrow> (Served (h3 ! fresh), st3))))"

definition cacheFirst :: "env \<Rightarrow> request \<Rightarrow> sw_state \<Rightarrow> result \<times> sw_state" where
  "cacheFirst env req st =
     (let cached = caches_match (storage st) (request_url req)
      in if truthy cached then (respond cached, st)
         else (case fetch env req [] st of
                 (None, st1) \<Rightarrow> (Failed, st1)
               | (Some (fresh, h1), st1) \<Rightarrow>
                   (let st2 = caches_open RUNTIME_CACHE st1
                    in case clone fresh h1 of
                         None \<Rightarrow> (Failed, st2)
                       | Some (c, h2) \<Rightarrow>
                           (case cache_put RUNTIME_CACHE (request_url req) c h2 st2 of
                              (h3, st3) \<Rightarrow> (Served (h3 ! fresh), st3)))))"

text \<open>
  The \<^verbatim>\<open>catch\<close> block of \<^verbatim>\<open>networkWithFallback\<close>:
  \<^verbatim>\<open>return caches.match(req) || caches.match('/offline.html')\<close>, the left operand a promise
  that has not been awaited.
\<close>

definition networkWithFallback_catch :: "env \<Rightarrow> request \<Rightarrow> sw_state \<Rightarrow> result \<times> sw_state" where
  "networkWithFallback_catch env req st =
     (let p = Promise (caches_match (storage st) (request_url req))
      in (respond (settled (if truthy_promise p then p
                            else Promise (caches_match (storage st) (offline_url env)))), st))"

definition networkWithFallback :: "env \<Rightarrow> request \<Rightarrow> sw_state \<Rightarrow> result \<times> sw_state" where
  "networkWithFallback env req st =
     (case fetch env req [] st of
        (None, st1) \<Rightarrow> networkWithFallback_catch env req st1
      | (Some (fresh, h1), st1) \<Rightarrow>
          (let st2 = caches_open RUNTIME_CACHE st1
           in case clone fresh h1 of
                None \<Rightarrow> networkWithFallback_catch env req st2
              | Some (c, h2) \<Rightarrow>
                  (case cache_put RUNTIME_CACHE (request_url req) c h2 st2 of
                     (h3, st3) \<Rightarrow> (Served (h3 ! fresh), st3))))"

section \<open>The fetch handler\<close>

text \<open>
  The chain of tests of the fetch handler, first match wins; \<open>PASS_THROUGH\<close> is a return
  without \<^verbatim>\<open>respondWith\<close>.
\<close>

definition classify :: "request \<Rightarrow> policy" where
  "classify req =
     (if rmethod req \<noteq> ''GET'' then PASS_THROUGH
      else if str_includes (origin req) ''googleapis''
            \<or> str_includes (origin req) ''firebase''
            \<or> str_includes (origin req) ''gstatic'' then PASS_THROUGH
      else if pathname req \<in> set APP_SHELL \<or> pathname req = ''/'' then SHELL_RESOURCE
      else if destination req = ''image''
            \<or> destination req = ''font''
            \<or> destination req = ''style'' then STATIC_ASSET
      else DYNAMIC_RESOURCE)"

definition respondWith :: "result \<times> sw_state \<Rightarrow> fetch_outcome \<times> sw_state" where
  "respondWith rs = (Responded (fst rs), snd rs)"

definition fetch_handler :: "env \<Rightarrow> request \<Rightarrow> sw_state \<Rightarrow> fetch_outcome \<times> sw_state" where
  "fetch_handler env req st =
     (case classify req of
        PASS_THROUGH \<Rightarrow> (NotIntercepted, st)
      | SHELL_RESOURCE \<Rightarrow> respondWith (networkFirst env req st)
      | STATIC_ASSET \<Rightarrow> respondWith (cacheFirst env req st)
      | DYNAMIC_RESOURCE \<Rightarrow> respondWith (networkWithFallback env req st))"

section \<open>Sample worlds\<close>

text \<open>
  Concrete origins, responses, networks and cache contents on which the theorems below are
  exercised.
\<close>

definition site :: string where
  "site = ''https://teachmate.example.org''"

definition page_A :: entry where
  "page_A = \<lparr>status = 200, headers = [], body = ''A''\<rparr>"

definition page_B :: entry where
  "page_B = \<lparr>status = 200, headers = [], body = ''B''\<rparr>"

definition not_found :: entry where
  "not_found = \<lparr>status = 404, headers = [], body = ''missing''\<rparr>"

definition partial_content :: entry where
  "partial_content = \<lparr>status = 206, headers = [], body = ''part''\<rparr>"

definition varying :: entry where
  "varying = \<lparr>status = 200, headers = [(''vary'', ''accept, *'')], body = ''V''\<rparr>"

definition net_down :: "request \<Rightarrow> entry option" where
  "net_down req = None"

definition net_up :: "entry \<Rightarrow> request \<Rightarrow> entry option" where
  "net_up e req = Some e"

definition net_root_down :: "request \<Rightarrow> entry option" where
  "net_root_down req = (if pathname req = ''/'' then None else Some page_A)"

definition env_down :: env where
  "env_down = \<lparr>sw_origin = site, net = net_down\<rparr>"

definition env_up :: "entry \<Rightarrow> env" where
  "env_up e = \<lparr>sw_origin = site, net = net_up e\<rparr>"

definition env_root_down :: env where
  "env_root_down = \<lparr>sw_origin = site, net = net_root_down\<rparr>"

definition get_request :: "string \<Rightarrow> string \<Rightarrow> string \<Rightarrow> request" where
  "get_request host p d =
     \<lparr>rmethod = ''GET'', origin = host, pathname = p, search = [], destination = d\<rparr>"

definition two_generations :: "cache \<Rightarrow> cache \<Rightarrow> sw_state" where
  "two_generations cs cr =
     \<lparr>storage = [(APP_SHELL_CACHE, cs), (RUNTIME_CACHE, cr)], log = []\<rparr>"

definition no_generations :: sw_state where
  "no_generations = \<lparr>storage = [], log = []\<rparr>"

lemmas fixtures =
  site_def page_A_def page_B_def not_found_def partial_content_def varying_def
  net_down_def net_up_def net_root_down_def
  env_down_def env_up_def env_root_down_def get_request_def two_generations_def no_generations_def

lemmas worker_defs =
  APP_SHELL_CACHE_def RUNTIME_CACHE_def APP_SHELL_def request_url_def new_response_def
  alloc_def clone_def
  caches_keys_def caches_open_def caches_delete_def generation_entry_def put_entry_def
  store_entry_def is_space_def trim_def vary_star_def http_scheme_def put_accepts_def cache_put_def
  fetch_def shell_request_def addable_def cache_addAll_def install_handler_def
  reclaimStaleGenerations_def activate_handler_def message_handler_def truthy_def respond_def
  offline_url_def networkFirst_catch_def networkFirst_def cacheFirst_def networkWithFallback_catch_def
  networkWithFallback_def classify_def respondWith_def fetch_handler_def str_includes_def Let_def

section \<open>Facts about the cache storage\<close>

lemma map_of_retarget:
  "map_of (map (\<lambda>nc. if fst nc = name then (fst nc, f (snd nc)) else nc) cs) n
     = (if n = name then map_option f (map_of cs n) else map_of cs n)"
  by (induction cs) auto

lemma map_of_filter_fst_neq: "map_of (filter (\<lambda>ke. fst ke \<noteq> url) c) url = None"
  by (induction c) auto

lemma map_of_filter_other:
  "u \<noteq> url \<Longrightarrow> map_of (filter (\<lambda>ke. fst ke \<noteq> url) c) u = map_of c u"
  by (induction c) auto

lemma map_of_put_entry:
  "map_of (put_entry url e c) u = (if u = url then Some e else map_of c u)"
  by (auto simp: put_entry_def map_add_def map_of_filter_fst_neq map_of_filter_other
           split: option.splits)

lemma not_used_new_response: "\<not> bodyUsed (new_response e)"
  by (simp add: new_response_def)

lemma content_new_response: "content (new_response e) = e"
  by (simp add: new_response_def)

lemma generation_entry_store_entry:
  "generation_entry n (store_entry name url e cs) u =
     (if n = name \<and> u = url \<and> map_of cs name \<noteq> None then Some e
      else generation_entry n cs u)"
  by (auto simp: generation_entry_def store_entry_def map_of_retarget map_of_put_entry
           split: option.splits)

lemma store_entry_keeps_names:
  "(map_of (store_entry name url e cs) n = None) = (map_of cs n = None)"
  by (simp add: store_entry_def map_of_retarget)

lemma alloc_valid:
  "alloc r h = (a, h2) \<Longrightarrow> a < length h2 \<and> h2 ! a = r \<and> (\<forall>b < length h. h2 ! b = h ! b)"
  by (auto simp: alloc_def nth_append)

lemma storage_cache_put:
  "storage (snd (cache_put name url a h st)) =
     (if put_accepts url (content (h ! a)) \<and> \<not> bodyUsed (h ! a)
      then store_entry name url (content (h ! a)) (storage st) else storage st)"
  by (simp add: cache_put_def Let_def)

lemma log_cache_put: "log (snd (cache_put name url a h st)) = log st @ [CachePut name url]"
  by (simp add: cache_put_def Let_def)

text \<open>
  The object that is given to \<^verbatim>\<open>put\<close> is used afterwards when the entry is written, and
  every other object is as it was. The strategies give \<^verbatim>\<open>put\<close> a clone and return the
  response they fetched, which is another object.
\<close>

lemma cache_put_takes_body:
  "a < length h \<Longrightarrow> put_accepts url (content (h ! a)) \<Longrightarrow>
   bodyUsed (fst (cache_put name url a h st) ! a)"
  by (simp add: cache_put_def Let_def)

lemma cache_put_other_objects:
  "b \<noteq> a \<Longrightarrow> fst (cache_put name url a h st) ! b = h ! b"
  by (simp add: cache_put_def Let_def)

lemma clone_is_new_object:
  "clone a h = Some (c, h2) \<Longrightarrow> a < length h \<Longrightarrow>
   c \<noteq> a \<and> h2 ! a = h ! a \<and> h2 ! c = h ! a"
  by (auto simp: clone_def alloc_def nth_append split: if_splits)

lemma log_put_all:
  "log (put_all name qes st) = log st @ map (\<lambda>qe. CachePut name (request_url (fst qe))) qes"
  by (induction qes arbitrary: st) simp_all

lemma caches_open_present: "map_of (storage (caches_open name st)) name \<noteq> None"
  by (auto simp: caches_open_def caches_keys_def map_of_eq_None_iff)

lemma generation_entry_caches_open:
  "generation_entry n (storage (caches_open name st)) u = generation_entry n (storage st) u"
proof (cases "name \<in> set (caches_keys (storage st))")
  case True
  then show ?thesis by (simp add: caches_open_def)
next
  case False
  then have none: "map_of (storage st) name = None"
    by (simp add: caches_keys_def map_of_eq_None_iff)
  show ?thesis
  proof (cases "map_of (storage st) n")
    case None
    with False none show ?thesis
      by (simp add: generation_entry_def caches_open_def map_add_def)
  next
    case (Some c)
    with False show ?thesis
      by (simp add: generation_entry_def caches_open_def map_add_def)
  qed
qed

lemma log_caches_open: "log (caches_open name st) = log st"
  by (simp add: caches_open_def)

lemma caches_match_append:
  "caches_match (pre @ post) url =
     (case caches_match pre url of Some e \<Rightarrow> Some e | None \<Rightarrow> caches_match post url)"
  by (induction pre) (auto split: option.splits)

section \<open>Facts about the sweep\<close>





section \<open>Facts about the strategies\<close>

text \<open>
  A resolved fetch in any of the strategies: the fetched object is at address 0, its clone
  at address 1, and the clone is what \<^verbatim>\<open>put\<close> is given.
\<close>

lemma networkFirst_resolved:
  "net env req = Some R \<Longrightarrow>
   networkFirst env req st =
     (Served (new_response R),
      snd (cache_put APP_SHELL_CACHE (request_url req) (Suc 0) [new_response R, new_response R]
             (caches_open APP_SHELL_CACHE (st\<lparr>log := log st @ [NetFetch req]\<rparr>))))"
  by (simp add: networkFirst_def fetch_def clone_def alloc_def new_response_def cache_put_def Let_def)



lemma resolved_put_storage:
  "storage (snd (cache_put name url (Suc 0) [new_response R, new_response R] st)) =
     (if put_accepts url R then store_entry name url R (storage st) else storage st)"
  by (simp add: storage_cache_put new_response_def)


lemma storage_caches_open_log [simp]:
  "storage (caches_open name (st\<lparr>log := l\<rparr>)) = storage (caches_open name st)"
  by (simp add: caches_open_def)

lemma networkFirst_rejected:
  "net env req = None \<Longrightarrow>
   networkFirst env req st =
     (respond (case caches_match (storage st) (request_url req) of
                 Some e \<Rightarrow> Some e
               | None \<Rightarrow> caches_match (storage st) (offline_url env)),
      st\<lparr>log := log st @ [NetFetch req]\<rparr>)"
  by (simp add: networkFirst_def networkFirst_catch_def fetch_def truthy_def split: option.splits)

lemma networkWithFallback_rejected:
  "net env req = None \<Longrightarrow>
   networkWithFallback env req st =
     (respond (caches_match (storage st) (request_url req)), st\<lparr>log := log st @ [NetFetch req]\<rparr>)"
  by (simp add: networkWithFallback_def networkWithFallback_catch_def fetch_def)

text \<open>
  A response that varies on \<^verbatim>\<open>*\<close> is returned by \<^verbatim>\<open>networkFirst\<close> and refused by the
  store, also by \<^verbatim>\<open>addAll\<close>: the entry that was stored stays, and an install fails.
\<close>

lemma vary_star_refused:
  "vary_star varying
   \<and> fst (networkFirst (env_up varying) (get_request site ''/'' ''document'')
        (two_generations [(site @ ''/'', page_A)] [])) = Served (new_response varying)
   \<and> generation_entry APP_SHELL_CACHE
        (storage (snd (networkFirst (env_up varying) (get_request site ''/'' ''document'')
           (two_generations [(site @ ''/'', page_A)] []))))
        (request_url (get_request site ''/'' ''document'')) = Some page_A
   \<and> \<not> fst (install_handler (env_up varying) no_generations)"
  by (simp add: fixtures worker_defs)

text \<open>
  In \<^verbatim>\<open>networkWithFallback\<close> the right operand of \<^verbatim>\<open>||\<close> is never evaluated: when the
  fetch rejects and no cache holds the request, the result is a failure, with or without a
  stored offline document. \<^verbatim>\<open>networkFirst\<close> awaits the lookup first and does reach the
  offline document.
\<close>

lemma networkWithFallback_offline_unreached:
  "net env req = None \<Longrightarrow> caches_match (storage st) (request_url req) = None \<Longrightarrow>
   fst (networkWithFallback env req st) = Failed"
  by (simp add: networkWithFallback_rejected respond_def)

text \<open>
  Both strategies in one world: the network is down and the shell generation holds the
  offline document and nothing else.
\<close>

lemma offline_document_tiers_differ:
  "caches_match (storage (two_generations [(site @ ''/offline.html'', page_B)] []))
     (offline_url env_down) = Some page_B
   \<and> fst (networkWithFallback env_down (get_request site ''/api/lessons'' [])
        (two_generations [(site @ ''/offline.html'', page_B)] [])) = Failed
   \<and> fst (networkFirst env_down (get_request site ''/'' ''document'')
        (two_generations [(site @ ''/offline.html'', page_B)] [])) = Served (new_response page_B)"
  by (simp add: fixtures worker_defs)

section \<open>Network with fallback\<close>

text \<open>
  C1, as amended. For every DYNAMIC_RESOURCE request whose network fetch fails: if any
  existing generation holds an entry for the request key, \<^verbatim>\<open>networkWithFallback\<close> returns the
  first such entry in the order in which the generations were created, which is the runtime
  generation's entry whenever no generation created before it holds the key; when no
  generation holds the key and no offline document is stored, the result is the terminal
  failure. The cache storage is left as it was.
\<close>

theorem networkWithFallback_failure:
  assumes "net env req = None"
  shows "(caches_match (storage st) (request_url req) = Some e \<longrightarrow>
            fst (networkWithFallback env req st) = Served (new_response e))
       \<and> (storage st = pre @ (RUNTIME_CACHE, c) # post
            \<and> caches_match pre (request_url req) = None
            \<and> map_of c (request_url req) = Some e' \<longrightarrow>
            fst (networkWithFallback env req st) = Served (new_response e'))
       \<and> (caches_match (storage st) (request_url req) = None
            \<and> caches_match (storage st) (offline_url env) = None \<longrightarrow>
            fst (networkWithFallback env req st) = Failed)
       \<and> storage (snd (networkWithFallback env req st)) = storage st"
  using assms
  by (auto simp: networkWithFallback_rejected respond_def caches_match_append)

text \<open>
  The theorem at work: the network is down, the runtime generation holds the lesson list
  in one world and nothing in the other.
\<close>

theorem networkWithFallback_failure_witness:
  "net env_down (get_request site ''/api/lessons'' []) = None
   \<and> fst (networkWithFallback env_down (get_request site ''/api/lessons'' [])
            (two_generations [] [(site @ ''/api/lessons'', page_B)])) = Served (new_response page_B)
   \<and> fst (networkWithFallback env_down (get_request site ''/api/lessons'' [])
            (two_generations [] [])) = Failed"
proof -
  have down: "net env_down (get_request site ''/api/lessons'' []) = None"
    by (simp add: env_down_def net_down_def)
  have held: "storage (two_generations [] [(site @ ''/api/lessons'', page_B)])
                = [(APP_SHELL_CACHE, [])] @ (RUNTIME_CACHE, [(site @ ''/api/lessons'', page_B)]) # []
              \<and> caches_match [(APP_SHELL_CACHE, [])] (request_url (get_request site ''/api/lessons'' [])) = None
              \<and> map_of [(site @ ''/api/lessons'', page_B)] (request_url (get_request site ''/api/lessons'' []))
                  = Some page_B"
    by (simp add: two_generations_def get_request_def request_url_def)
  have absent: "caches_match (storage (two_generations [] [])) (request_url (get_request site ''/api/lessons'' [])) = None
              \<and> caches_match (storage (two_generations [] [])) (offline_url env_down) = None"
    by (simp add: two_generations_def)
  from networkWithFallback_failure [OF down,
         where st = "two_generations [] [(site @ ''/api/lessons'', page_B)]"
           and pre = "[(APP_SHELL_CACHE, [])]" and c = "[(site @ ''/api/lessons'', page_B)]"
           and post = "[]" and e' = page_B] held
  have one: "fst (networkWithFallback env_down (get_request site ''/api/lessons'' [])
            (two_generations [] [(site @ ''/api/lessons'', page_B)])) = Served (new_response page_B)"
    by blast
  from networkWithFallback_failure [OF down, where st = "two_generations [] []"] absent
  have two: "fst (networkWithFallback env_down (get_request site ''/api/lessons'' [])
            (two_generations [] [])) = Failed"
    by blast
  from down one two show ?thesis by blast
qed

text \<open>
  C1 as it was stated fails: with the network down and the key held by both generations,
  the runtime generation holds \<open>page_B\<close> and the answer is the shell generation's \<open>page_A\<close>.
\<close>

theorem networkWithFallback_counterexample:
  "classify (get_request site ''/api/lessons'' []) = DYNAMIC_RESOURCE
   \<and> net env_down (get_request site ''/api/lessons'' []) = None
   \<and> generation_entry RUNTIME_CACHE
        (storage (two_generations [(site @ ''/api/lessons'', page_A)] [(site @ ''/api/lessons'', page_B)]))
        (request_url (get_request site ''/api/lessons'' [])) = Some page_B
   \<and> fst (networkWithFallback env_down (get_request site ''/api/lessons'' [])
        (two_generations [(site @ ''/api/lessons'', page_A)] [(site @ ''/api/lessons'', page_B)]))
       \<noteq> Served (new_response page_B)"
  by (simp add: fixtures worker_defs sublist_Cons_right)

section \<open>Shell population at install\<close>

text \<open>
  C2, as amended. Shell population at install time is all or nothing: when every path
  of the manifest fetches with a response that \<^verbatim>\<open>addAll\<close> accepts (an ok status other than
  206, no \<^verbatim>\<open>Vary: *\<close>), the install succeeds and every path is stored
  in the shell generation with the response fetched for it; when some path fails, the
  install fails and the shell generation holds exactly what it held before, so that no
  successfully fetched path is stored.
\<close>

theorem install_all_or_nothing:
  "(list_all (fetched_ok env) APP_SHELL \<longrightarrow>
      fst (install_handler env st)
      \<and> (\<forall>p \<in> set APP_SHELL.
            generation_entry APP_SHELL_CACHE (storage (snd (install_handler env st))) (sw_origin env @ p)
              = net env (shell_request env p)))
   \<and> (\<not> list_all (fetched_ok env) APP_SHELL \<longrightarrow>
      \<not> fst (install_handler env st)
      \<and> (\<forall>u. generation_entry APP_SHELL_CACHE (storage (snd (install_handler env st))) u
              = generation_entry APP_SHELL_CACHE (storage st) u))"
proof -
  let ?st2 = "caches_open APP_SHELL_CACHE (st\<lparr>log := log st @ [SkipWaiting]\<rparr>)"
  have present: "map_of (storage ?st2) APP_SHELL_CACHE \<noteq> None"
    by (rule caches_open_present)
  show ?thesis
    using present
    by (auto simp: install_handler_def cache_addAll_def Let_def APP_SHELL_def fetched_ok_def
                   shell_request_def request_url_def
                   generation_entry_store_entry generation_entry_caches_open store_entry_keeps_names
             split: option.splits)
qed

text \<open>
  The theorem at work: a network that serves every path, and one on which the root
  document fails.
\<close>

theorem install_all_or_nothing_witness:
  "list_all (fetched_ok (env_up page_A)) APP_SHELL
   \<and> fst (install_handler (env_up page_A) no_generations)
   \<and> generation_entry APP_SHELL_CACHE (storage (snd (install_handler (env_up page_A) no_generations)))
        (site @ ''/offline.html'') = Some page_A
   \<and> \<not> list_all (fetched_ok env_root_down) APP_SHELL
   \<and> \<not> fst (install_handler env_root_down no_generations)
   \<and> generation_entry APP_SHELL_CACHE (storage (snd (install_handler env_root_down no_generations)))
        (site @ ''/manifest.json'') = None"
proof -
  have ok: "list_all (fetched_ok (env_up page_A)) APP_SHELL"
    by (simp add: fetched_ok_def env_up_def net_up_def page_A_def addable_def vary_star_def
                  APP_SHELL_def)
  have bad: "\<not> list_all (fetched_ok env_root_down) APP_SHELL"
    by (simp add: fetched_ok_def env_root_down_def net_root_down_def shell_request_def APP_SHELL_def)
  have member: "''/offline.html'' \<in> set APP_SHELL"
    by (simp add: APP_SHELL_def)
  have before: "generation_entry APP_SHELL_CACHE (storage no_generations) (site @ ''/manifest.json'') = None"
    by (simp add: generation_entry_def no_generations_def)
  from install_all_or_nothing [of "env_up page_A" no_generations] ok member
  have one: "fst (install_handler (env_up page_A) no_generations)
     \<and> generation_entry APP_SHELL_CACHE (storage (snd (install_handler (env_up page_A) no_generations)))
          (sw_origin (env_up page_A) @ ''/offline.html'')
         = net (env_up page_A) (shell_request (env_up page_A) ''/offline.html'')"
    by blast
  from install_all_or_nothing [of env_root_down no_generations] bad before
  have two: "\<not> fst (install_handler env_root_down no_generations)
     \<and> generation_entry APP_SHELL_CACHE (storage (snd (install_handler env_root_down no_generations)))
        (site @ ''/manifest.json'') = None"
    by simp
  from ok bad one two show ?thesis
    by (simp add: env_up_def net_up_def)
qed

text \<open>
  C2 as it was stated fails: the root document cannot be fetched, the manifest file can,
  and after the install the shell generation has no entry for the manifest file.
\<close>

theorem install_best_effort_counterexample:
  "net env_root_down (shell_request env_root_down ''/'') = None
   \<and> net env_root_down (shell_request env_root_down ''/manifest.json'') = Some page_A
   \<and> addable page_A
   \<and> generation_entry APP_SHELL_CACHE (storage (snd (install_handler env_root_down no_generations)))
        (request_url (shell_request env_root_down ''/manifest.json'')) = None"
  by (simp add: fixtures worker_defs)

section \<open>Network first\<close>

text \<open>
  C3, as amended. For every SHELL_RESOURCE request for which the network returns a
  response of a status outside 2xx, \<^verbatim>\<open>networkFirst\<close> treats the fetch as a success: it
  puts the response into the shell generation, returns it, and consults no fallback. The
  put stores the response, replacing any entry for the request, whenever the store accepts
  it (an http or https URL, no \<^verbatim>\<open>Vary: *\<close>); a response the store refuses leaves the entry
  for the request as it was. The fallback tiers (the first stored entry for the request,
  then the offline document) are served only when the fetch itself rejects.
\<close>

theorem networkFirst_any_status:
  "(net env req = Some R \<and> \<not> (200 \<le> status R \<and> status R \<le> 299) \<longrightarrow>
      fst (networkFirst env req st) = Served (new_response R)
      \<and> generation_entry APP_SHELL_CACHE (storage (snd (networkFirst env req st))) (request_url req)
          = (if http_scheme (request_url req) \<and> \<not> vary_star R then Some R
             else generation_entry APP_SHELL_CACHE (storage st) (request_url req))
      \<and> log (snd (networkFirst env req st))
          = log st @ [NetFetch req, CachePut APP_SHELL_CACHE (request_url req)])
   \<and> (net env req = None \<longrightarrow>
      fst (networkFirst env req st)
        = respond (case caches_match (storage st) (request_url req) of
                     Some e \<Rightarrow> Some e
                   | None \<Rightarrow> caches_match (storage st) (offline_url env))
      \<and> storage (snd (networkFirst env req st)) = storage st)"
  by (auto simp: networkFirst_rejected networkFirst_resolved resolved_put_storage put_accepts_def
                 generation_entry_store_entry generation_entry_caches_open caches_open_present
                 log_cache_put log_caches_open)

text \<open>
  The theorem at work: a network that answers 404 for the root document, and a network
  that is down while the offline document is stored.
\<close>

theorem networkFirst_any_status_witness:
  "net (env_up not_found) (get_request site ''/'' ''document'') = Some not_found
   \<and> \<not> (200 \<le> status not_found \<and> status not_found \<le> 299)
   \<and> fst (networkFirst (env_up not_found) (get_request site ''/'' ''document'') no_generations)
       = Served (new_response not_found)
   \<and> net env_down (get_request site ''/'' ''document'') = None
   \<and> fst (networkFirst env_down (get_request site ''/'' ''document'')
            (two_generations [(site @ ''/offline.html'', page_B)] []))
       = Served (new_response page_B)"
proof -
  have up: "net (env_up not_found) (get_request site ''/'' ''document'') = Some not_found
            \<and> \<not> (200 \<le> status not_found \<and> status not_found \<le> 299)"
    by (simp add: env_up_def net_up_def not_found_def)
  have down: "net env_down (get_request site ''/'' ''document'') = None"
    by (simp add: env_down_def net_down_def)
  from networkFirst_any_status [where env = "env_up not_found"
         and req = "get_request site ''/'' ''document''" and R = not_found and st = no_generations] up
  have one: "fst (networkFirst (env_up not_found) (get_request site ''/'' ''document'') no_generations)
       = Served (new_response not_found)"
    by blast
  from networkFirst_any_status [where env = env_down and req = "get_request site ''/'' ''document''"
         and st = "two_generations [(site @ ''/offline.html'', page_B)] []"] down
  have two: "fst (networkFirst env_down (get_request site ''/'' ''document'')
            (two_generations [(site @ ''/offline.html'', page_B)] []))
       = respond (case caches_match (storage (two_generations [(site @ ''/offline.html'', page_B)] []))
                         (request_url (get_request site ''/'' ''document'')) of
                    Some e \<Rightarrow> Some e
                  | None \<Rightarrow> caches_match (storage (two_generations [(site @ ''/offline.html'', page_B)] []))
                             (offline_url env_down))"
    by blast
  from up down one two show ?thesis
    by (simp add: fixtures worker_defs)
qed

text \<open>
  C3 as it was stated fails: the shell generation holds \<open>page_A\<close> for the root document
  and the offline document is stored; the network answers 404, and that answer is returned
  and replaces \<open>page_A\<close> in the shell generation.
\<close>

theorem networkFirst_non2xx_counterexample:
  "classify (get_request site ''/'' ''document'') = SHELL_RESOURCE
   \<and> net (env_up not_found) (get_request site ''/'' ''document'') = Some not_found
   \<and> status not_found = 404
   \<and> generation_entry APP_SHELL_CACHE
        (storage (two_generations [(site @ ''/'', page_A), (site @ ''/offline.html'', page_B)] []))
        (request_url (get_request site ''/'' ''document'')) = Some page_A
   \<and> fst (networkFirst (env_up not_found) (get_request site ''/'' ''document'')
        (two_generations [(site @ ''/'', page_A), (site @ ''/offline.html'', page_B)] []))
       = Served (new_response not_found)
   \<and> generation_entry APP_SHELL_CACHE
        (storage (snd (networkFirst (env_up not_found) (get_request site ''/'' ''document'')
           (two_generations [(site @ ''/'', page_A), (site @ ''/offline.html'', page_B)] []))))
        (request_url (get_request site ''/'' ''document'')) = Some not_found"
  by (simp add: fixtures worker_defs sublist_Cons_right)

section \<open>Classification\<close>

text \<open>
  C4. For every GET request to an origin that is not bypassed and whose path is in the
  shell manifest, the classification is SHELL_RESOURCE and the request is answered by
  \<^verbatim>\<open>networkFirst\<close>, whatever its destination (image, font and style included).
\<close>

theorem shell_priority:
  assumes "rmethod req = ''GET''"
    and "\<not> str_includes (origin req) ''googleapis''"
    and "\<not> str_includes (origin req) ''firebase''"
    and "\<not> str_includes (origin req) ''gstatic''"
    and "pathname req \<in> set APP_SHELL"
  shows "classify req = SHELL_RESOURCE
       \<and> fetch_handler env req st = respondWith (networkFirst env req st)"
  using assms by (simp add: classify_def fetch_handler_def)

text \<open>The theorem at work: the manifest file requested as an image.\<close>

theorem shell_priority_witness:
  "destination (get_request site ''/manifest.json'' ''image'') = ''image''
   \<and> classify (get_request site ''/manifest.json'' ''image'') = SHELL_RESOURCE"
proof -
  have "rmethod (get_request site ''/manifest.json'' ''image'') = ''GET''"
    and "\<not> str_includes (origin (get_request site ''/manifest.json'' ''image'')) ''googleapis''"
    and "\<not> str_includes (origin (get_request site ''/manifest.json'' ''image'')) ''firebase''"
    and "\<not> str_includes (origin (get_request site ''/manifest.json'' ''image'')) ''gstatic''"
    and "pathname (get_request site ''/manifest.json'' ''image'') \<in> set APP_SHELL"
    by (simp_all add: get_request_def site_def str_includes_def sublist_Cons_right APP_SHELL_def)
  from shell_priority [OF this] show ?thesis
    by (simp add: get_request_def)
qed

section \<open>The activation sweep\<close>



section \<open>Cache first\<close>

text \<open>
  C6. For every STATIC_ASSET request whose key has a cached entry, \<^verbatim>\<open>cacheFirst\<close> returns
  the cached entry and leaves the worker's state as it was: no call of the network fetch is
  recorded and no cache write is made.
\<close>

theorem cacheFirst_hit:
  assumes "caches_match (storage st) (request_url req) = Some e"
  shows "cacheFirst env req st = (Served (new_response e), st)
       \<and> log (snd (cacheFirst env req st)) = log st
       \<and> storage (snd (cacheFirst env req st)) = storage st
       \<and> (classify req = STATIC_ASSET \<longrightarrow>
            fetch_handler env req st = (Responded (Served (new_response e)), st))"
  using assms by (simp add: cacheFirst_def truthy_def respond_def fetch_handler_def respondWith_def)

text \<open>The theorem at work: a logo held by the runtime generation, the network up.\<close>

theorem cacheFirst_hit_witness:
  "caches_match (storage (two_generations [] [(site @ ''/logo.png'', page_A)]))
     (request_url (get_request site ''/logo.png'' ''image'')) = Some page_A
   \<and> classify (get_request site ''/logo.png'' ''image'') = STATIC_ASSET
   \<and> fetch_handler (env_up page_B) (get_request site ''/logo.png'' ''image'')
        (two_generations [] [(site @ ''/logo.png'', page_A)])
       = (Responded (Served (new_response page_A)), two_generations [] [(site @ ''/logo.png'', page_A)])
   \<and> log (snd (cacheFirst (env_up page_B) (get_request site ''/logo.png'' ''image'')
        (two_generations [] [(site @ ''/logo.png'', page_A)]))) = []"
proof -
  have hit: "caches_match (storage (two_generations [] [(site @ ''/logo.png'', page_A)]))
     (request_url (get_request site ''/logo.png'' ''image'')) = Some page_A"
    by (simp add: two_generations_def get_request_def request_url_def)
  have static: "classify (get_request site ''/logo.png'' ''image'') = STATIC_ASSET"
    by (simp add: classify_def get_request_def site_def str_includes_def sublist_Cons_right APP_SHELL_def)
  from cacheFirst_hit [OF hit, where env = "env_up page_B"] hit static show ?thesis
    by (simp add: two_generations_def)
qed




section \<open>Network first on a reachable network\<close>

text \<open>
  C8, as amended. For every SHELL_RESOURCE request for which the network returns the
  response \<open>R\<close>: the response returned to the caller carries \<open>R\<close> and its body is unread,
  the put having been given a clone, which is another object; and when the store accepts
  \<open>R\<close> (an http or https URL, a status other than 206, no \<^verbatim>\<open>Vary: *\<close>), after
  \<^verbatim>\<open>networkFirst\<close> the shell generation's entry for the request key is \<open>R\<close>, whatever was
  stored for that key before. When the store refuses \<open>R\<close>, the entry for the key is what it
  was. No other entry of any generation changes.
\<close>

theorem networkFirst_fresh:
  assumes "net env req = Some R"
  shows "fst (networkFirst env req st) = Served \<lparr>content = R, bodyUsed = False\<rparr>
       \<and> generation_entry APP_SHELL_CACHE (storage (snd (networkFirst env req st))) (request_url req)
           = (if put_accepts (request_url req) R then Some R
              else generation_entry APP_SHELL_CACHE (storage st) (request_url req))
       \<and> (\<forall>n u. n \<noteq> APP_SHELL_CACHE \<or> u \<noteq> request_url req \<longrightarrow>
             generation_entry n (storage (snd (networkFirst env req st))) u
               = generation_entry n (storage st) u)"
proof -
  have unread: "\<lparr>content = R, bodyUsed = False\<rparr> = new_response R"
    by (simp add: new_response_def)
  from assms show ?thesis
    unfolding unread
    by (simp add: networkFirst_resolved resolved_put_storage
                  generation_entry_store_entry generation_entry_caches_open caches_open_present)
qed

text \<open>The theorem at work: the root document, stored as \<open>page_A\<close>, is fetched as \<open>page_B\<close>.\<close>

theorem networkFirst_fresh_witness:
  "net (env_up page_B) (get_request site ''/'' ''document'') = Some page_B
   \<and> put_accepts (request_url (get_request site ''/'' ''document'')) page_B
   \<and> generation_entry APP_SHELL_CACHE (storage (two_generations [(site @ ''/'', page_A)] []))
        (request_url (get_request site ''/'' ''document'')) = Some page_A
   \<and> fst (networkFirst (env_up page_B) (get_request site ''/'' ''document'')
        (two_generations [(site @ ''/'', page_A)] [])) = Served \<lparr>content = page_B, bodyUsed = False\<rparr>
   \<and> generation_entry APP_SHELL_CACHE
        (storage (snd (networkFirst (env_up page_B) (get_request site ''/'' ''document'')
           (two_generations [(site @ ''/'', page_A)] []))))
        (request_url (get_request site ''/'' ''document'')) = Some page_B"
proof -
  have up: "net (env_up page_B) (get_request site ''/'' ''document'') = Some page_B"
    by (simp add: env_up_def net_up_def)
  have accepted: "put_accepts (request_url (get_request site ''/'' ''document'')) page_B"
    by (simp add: put_accepts_def http_scheme_def vary_star_def get_request_def request_url_def
                  site_def page_B_def)
  have before: "generation_entry APP_SHELL_CACHE (storage (two_generations [(site @ ''/'', page_A)] []))
        (request_url (get_request site ''/'' ''document'')) = Some page_A"
    by (simp add: generation_entry_def two_generations_def get_request_def request_url_def)
  from networkFirst_fresh [OF up, where st = "two_generations [(site @ ''/'', page_A)] []"]
       up accepted before
  show ?thesis by simp
qed

text \<open>
  C8 as it was stated fails: the shell generation holds \<open>page_A\<close> for the root document,
  the network answers with partial content (206), which the store refuses; the answer is
  returned, and the shell generation's entry for the root document is still \<open>page_A\<close>.
\<close>

theorem networkFirst_partial_counterexample:
  "classify (get_request site ''/'' ''document'') = SHELL_RESOURCE
   \<and> net (env_up partial_content) (get_request site ''/'' ''document'') = Some partial_content
   \<and> fst (networkFirst (env_up partial_content) (get_request site ''/'' ''document'')
        (two_generations [(site @ ''/'', page_A)] []))
       = Served (new_response partial_content)
   \<and> generation_entry APP_SHELL_CACHE
        (storage (snd (networkFirst (env_up partial_content) (get_request site ''/'' ''document'')
           (two_generations [(site @ ''/'', page_A)] []))))
        (request_url (get_request site ''/'' ''document'')) = Some page_A
   \<and> page_A \<noteq> partial_content"
  by (simp add: fixtures worker_defs sublist_Cons_right)

section \<open>Bypassed origins\<close>

text \<open>
  C9. Every request whose origin contains \<^verbatim>\<open>googleapis\<close>, \<^verbatim>\<open>firebase\<close> or \<^verbatim>\<open>gstatic\<close>
  anywhere within it is passed through: the handler does not respond, calls nothing and
  writes nothing. The test is containment, so a host that merely embeds one of the three
  words is bypassed too.
\<close>

theorem bypass_substring:
  assumes "str_includes (origin req) ''googleapis''
         \<or> str_includes (origin req) ''firebase''
         \<or> str_includes (origin req) ''gstatic''"
  shows "classify req = PASS_THROUGH \<and> fetch_handler env req st = (NotIntercepted, st)"
  using assms by (auto simp: classify_def fetch_handler_def)

text \<open>The theorem at work: a host unrelated to the three services, with one of the words in its name.\<close>

theorem bypass_substring_witness:
  "str_includes (origin (get_request ''https://campfirebase.example.org'' ''/logo.png'' ''image'')) ''firebase''
   \<and> classify (get_request ''https://campfirebase.example.org'' ''/logo.png'' ''image'') = PASS_THROUGH
   \<and> fetch_handler (env_up page_A) (get_request ''https://campfirebase.example.org'' ''/logo.png'' ''image'')
        no_generations = (NotIntercepted, no_generations)"
proof -
  have inside: "str_includes (origin (get_request ''https://campfirebase.example.org'' ''/logo.png'' ''image'')) ''firebase''"
    by (simp add: get_request_def str_includes_def sublist_Cons_right)
  then have "str_includes (origin (get_request ''https://campfirebase.example.org'' ''/logo.png'' ''image'')) ''googleapis''
         \<or> str_includes (origin (get_request ''https://campfirebase.example.org'' ''/logo.png'' ''image'')) ''firebase''
         \<or> str_includes (origin (get_request ''https://campfirebase.example.org'' ''/logo.png'' ''image'')) ''gstatic''"
    by blast
  from bypass_substring [OF this, where env = "env_up page_A" and st = no_generations] inside
  show ?thesis by blast
qed

section \<open>Takeover at install\<close>

text \<open>
  C10. Every run of the install handler, from any state and on any network, first calls
  \<^verbatim>\<open>skipWaiting\<close> and only then fetches the shell paths and, when all were fetched, writes
  them. The handler takes no message: the call does not depend on a SKIP_WAITING signal.
\<close>

theorem install_skipWaiting_first:
  "log (snd (install_handler env st))
     = log st @ SkipWaiting # map (\<lambda>p. NetFetch (shell_request env p)) APP_SHELL
         @ (if fst (install_handler env st)
            then map (\<lambda>p. CachePut APP_SHELL_CACHE (sw_origin env @ p)) APP_SHELL else [])"
  by (simp add: install_handler_def cache_addAll_def Let_def log_put_all log_caches_open
                APP_SHELL_def shell_request_def request_url_def
           split: option.splits)

end
